theory Spec2Isabelle
  imports Complex_Main "HOL-Library.AList"
begin

section \<open>Python values and errors\<close>

text \<open>
  The module \<^verbatim>\<open>mpinets/run_training.py\<close> moves values read from a YAML file and
  from the command line into the constructors of its collaborators. Those values are
  modelled by \<open>pyval\<close>. A dict is an association list in insertion order (keys are
  strings, as every key the module reads is). A float is only compared with zero and
  passed on, never computed with; it is carried as a real number.
\<close>

datatype pyval =
    PNone
  | PBool bool
  | PInt int
  | PFloat real
  | PStr string
  | PList "pyval list"
  | PDict "(string \<times> pyval) list"

datatype error =
    TypeError
  | KeyError string
  | AssertionError string
  | EOFError
  | PyException string
  | OSError
  | YAMLError
  | InvalidGitRepositoryError

text \<open>Truth value of an object, as \<^verbatim>\<open>if x\<close>, \<^verbatim>\<open>not x\<close> and \<^verbatim>\<open>x or y\<close> read it.\<close>

fun truthy :: "pyval \<Rightarrow> bool" where
  "truthy PNone = False"
| "truthy (PBool b) = b"
| "truthy (PInt n) = (n \<noteq> 0)"
| "truthy (PFloat x) = (x \<noteq> 0)"
| "truthy (PStr s) = (s \<noteq> [])"
| "truthy (PList xs) = (xs \<noteq> [])"
| "truthy (PDict d) = (d \<noteq> [])"

definition py_or :: "pyval \<Rightarrow> pyval \<Rightarrow> pyval" where
  "py_or x y = (if truthy x then x else y)"

text \<open>
  \<^verbatim>\<open>{**d, **e}\<close>: the entries of \<open>e\<close> are written into a copy of \<open>d\<close> one after
  the other; a key already present keeps its position and takes the new value.
  \<^verbatim>\<open>d[k]\<close> raises KeyError on a missing key.
\<close>

definition dict_merge :: "(string \<times> 'v) list \<Rightarrow> (string \<times> 'v) list \<Rightarrow> (string \<times> 'v) list" where
  "dict_merge d e = foldl (\<lambda>acc kv. AList.update (fst kv) (snd kv) acc) d e"

definition getitem :: "(string \<times> 'v) list \<Rightarrow> string \<Rightarrow> error + 'v" where
  "getitem d k = (case map_of d k of None \<Rightarrow> Inl (KeyError k) | Some v \<Rightarrow> Inr v)"

section \<open>Paths\<close>

text \<open>
  A \<^verbatim>\<open>pathlib.Path\<close> object is kept as the expression that built it:
  \<^verbatim>\<open>Path(x)\<close>, \<^verbatim>\<open>p.resolve()\<close> (which reads the file system) and \<^verbatim>\<open>p / s\<close>.
  The operator \<^verbatim>\<open>/\<close> with a str on its right is defined when the left operand is a
  path; a str on the left has no such operator and the expression raises TypeError.
\<close>

datatype path = Path pyval | Resolve path | Join path string

datatype pyobj = Str string | PathObj path

fun truediv :: "pyobj \<Rightarrow> string \<Rightarrow> error + pyobj" where
  "truediv (PathObj p) s = Inr (PathObj (Join p s))"
| "truediv (Str a) s = Inl TypeError"

section \<open>The collaborators' constructor arguments\<close>

text \<open>
  Calls into third-party libraries are recorded as data: the model shows which arguments
  the module hands to \<^verbatim>\<open>timedelta\<close>, \<^verbatim>\<open>ModelCheckpoint\<close>, \<^verbatim>\<open>DDPStrategy\<close>,
  \<^verbatim>\<open>WandbLogger\<close> and \<^verbatim>\<open>pl.Trainer\<close>, and does not run them.
\<close>

datatype timedelta = Minutes pyval

datatype strategy = DDPStrategy (find_unused_parameters: bool)

datatype argval = AVal pyval | AStrategy strategy

record wandb_logger =
  wl_name :: pyval
  wl_project :: string
  wl_log_model :: bool
  wl_experiment_id :: string
  wl_hyperparams :: "(string \<times> pyval) list"

text \<open>
  A \<^verbatim>\<open>ModelCheckpoint\<close> callback. \<open>mc_CHECKPOINT_NAME_LAST\<close> is the name under which
  the callback keeps its most recent checkpoint when \<^verbatim>\<open>save_last\<close> is set; the
  library's class gives it the value \<^verbatim>\<open>"last"\<close>, and the constructor leaves
  \<^verbatim>\<open>train_time_interval\<close> and \<^verbatim>\<open>save_on_train_epoch_end\<close> at None unless given.
\<close>

record model_checkpoint =
  mc_monitor :: "string option"
  mc_save_last :: "bool option"
  mc_dirpath :: pyobj
  mc_train_time_interval :: "timedelta option"
  mc_save_on_train_epoch_end :: "bool option"
  mc_CHECKPOINT_NAME_LAST :: string

definition ModelCheckpoint ::
  "string option \<Rightarrow> bool option \<Rightarrow> pyobj \<Rightarrow> timedelta option \<Rightarrow> bool option \<Rightarrow> model_checkpoint" where
  "ModelCheckpoint monitor save_last dirpath train_time_interval save_on_train_epoch_end =
     \<lparr>mc_monitor = monitor, mc_save_last = save_last, mc_dirpath = dirpath,
      mc_train_time_interval = train_time_interval,
      mc_save_on_train_epoch_end = save_on_train_epoch_end,
      mc_CHECKPOINT_NAME_LAST = ''last''\<rparr>"

datatype logger_arg = LoggerFalse | LoggerObj wandb_logger

record trainer =
  tr_enable_checkpointing :: bool
  tr_callbacks :: "model_checkpoint list"
  tr_max_epochs :: int
  tr_gradient_clip_val :: pyval
  tr_gpus :: pyval
  tr_precision :: int
  tr_logger :: logger_arg
  tr_kwargs :: "(string \<times> argval) list"

section \<open>setup_trainer\<close>

text \<open>
  The test of lines 52 to 54: a list with more than one element, or an int greater
  than 1. A bool is an int in Python (\<^verbatim>\<open>True\<close> is 1), so it passes the
  \<^verbatim>\<open>isinstance\<close> test and fails the comparison.
\<close>

definition more_than_one_device :: "pyval \<Rightarrow> bool" where
  "more_than_one_device gpus =
     (case gpus of
        PList xs \<Rightarrow> length xs > 1
      | PInt n \<Rightarrow> n > 1
      | PBool b \<Rightarrow> (if b then (1::int) else 0) > 1
      | _ \<Rightarrow> False)"

text \<open>Lines 47 to 60: the keyword arguments collected in \<^verbatim>\<open>args\<close>.\<close>

definition execution_args :: "pyval \<Rightarrow> bool \<Rightarrow> pyval \<Rightarrow> (string \<times> argval) list" where
  "execution_args gpus test validation_interval =
     (let args0 = [];
          args1 = (if test
                   then AList.update ''limit_val_batches'' (AVal (PInt 3))
                          (AList.update ''limit_train_batches'' (AVal (PInt 10)) args0)
                   else args0);
          validation_interval1 = (if test then PInt 2 else validation_interval);
          args2 = (if more_than_one_device gpus
                   then AList.update ''strategy'' (AStrategy (DDPStrategy False)) args1
                   else args1)
      in if validation_interval1 \<noteq> PNone
         then AList.update ''val_check_interval'' (AVal validation_interval1) args2
         else args2)"

text \<open>
  Lines 62 to 66: the experiment identity is the tracking session's id when logging, and
  a fresh \<^verbatim>\<open>uuid1\<close> (a parameter here) otherwise.
\<close>

definition experiment_id_of :: "bool \<Rightarrow> wandb_logger option \<Rightarrow> string \<Rightarrow> error + string" where
  "experiment_id_of should_log logger uuid =
     (if should_log
      then (case logger of
              None \<Rightarrow> Inl (AssertionError ''If should_log is True, logger should not be None'')
            | Some l \<Rightarrow> Inr (wl_experiment_id l))
      else Inr uuid)"

text \<open>
  Lines 68 to 71. \<^verbatim>\<open>PROJECT_ROOT\<close> is bound at line 16 to
  \<^verbatim>\<open>str(Path(__file__).resolve().parent.parent)\<close>: a str.
\<close>

definition resolve_dirpath :: "string \<Rightarrow> pyval \<Rightarrow> string \<Rightarrow> error + pyobj" where
  "resolve_dirpath PROJECT_ROOT checkpoint_dir experiment_id =
     (if checkpoint_dir \<noteq> PNone
      then truediv (PathObj (Resolve (Path checkpoint_dir))) experiment_id
      else (case truediv (Str PROJECT_ROOT) ''checkpoints'' of
              Inl e \<Rightarrow> Inl e
            | Inr p \<Rightarrow> truediv p experiment_id))"

text \<open>
  Lines 73 to 86: the two callbacks, in the order they are appended. The status message
  of line 72 (like those of lines 105 and 197) is not modelled: nothing reads it.
\<close>

definition checkpoint_callbacks :: "pyobj \<Rightarrow> pyval \<Rightarrow> model_checkpoint list" where
  "checkpoint_callbacks dirpath checkpoint_interval =
     (let every_n_checkpoint =
            ModelCheckpoint (Some ''val_loss'') (Some True) dirpath
              (Some (Minutes checkpoint_interval)) None;
          epoch_end_checkpoint =
            ModelCheckpoint (Some ''val_loss'') (Some True) dirpath None (Some True);
          epoch_end_checkpoint1 =
            epoch_end_checkpoint\<lparr>mc_CHECKPOINT_NAME_LAST := ''epoch-{epoch}-end''\<rparr>
      in [] @ [every_n_checkpoint, epoch_end_checkpoint1])"

definition setup_trainer ::
  "string \<Rightarrow> string \<Rightarrow> pyval \<Rightarrow> bool \<Rightarrow> bool \<Rightarrow> bool \<Rightarrow> wandb_logger option \<Rightarrow>
   pyval \<Rightarrow> pyval \<Rightarrow> pyval \<Rightarrow> error + trainer" where
  "setup_trainer PROJECT_ROOT uuid gpus test should_log should_checkpoint logger
       checkpoint_interval checkpoint_dir validation_interval =
     (let args = execution_args gpus test validation_interval in
      case experiment_id_of should_log logger uuid of
        Inl e \<Rightarrow> Inl e
      | Inr experiment_id \<Rightarrow>
          (case (if should_checkpoint
                 then (case resolve_dirpath PROJECT_ROOT checkpoint_dir experiment_id of
                         Inl e \<Rightarrow> Inl e
                       | Inr dirpath \<Rightarrow> Inr (checkpoint_callbacks dirpath checkpoint_interval))
                 else Inr []) of
             Inl e \<Rightarrow> Inl e
           | Inr callbacks \<Rightarrow>
               Inr \<lparr>tr_enable_checkpointing = should_log,
                    tr_callbacks = callbacks,
                    tr_max_epochs = (if test then 1 else 500),
                    tr_gradient_clip_val = PFloat 1,
                    tr_gpus = gpus,
                    tr_precision = 16,
                    tr_logger = (case logger of None \<Rightarrow> LoggerFalse | Some l \<Rightarrow> LoggerObj l),
                    tr_kwargs = args\<rparr>))"

section \<open>setup_logger\<close>

text \<open>
  The tracking service issues the session id (\<open>wandb_id\<close>, a parameter) when the
  logger is created.
\<close>

definition setup_logger ::
  "string \<Rightarrow> bool \<Rightarrow> pyval \<Rightarrow> (string \<times> pyval) list \<Rightarrow> wandb_logger option" where
  "setup_logger wandb_id should_log experiment_name config_values =
     (if \<not> should_log then None
      else Some \<lparr>wl_name = experiment_name, wl_project = ''mpinets'', wl_log_model = True,
                 wl_experiment_id = wandb_id, wl_hyperparams = config_values\<rparr>)"

section \<open>The reproducibility checks\<close>

text \<open>
  \<^verbatim>\<open>git.Repo(search_parent_directories=True)\<close> either fails or gives a repository
  whose \<^verbatim>\<open>is_dirty(untracked_files=False)\<close> is a bool: the argument is that outcome.
\<close>

definition check_for_uncommitted_changes :: "error + bool \<Rightarrow> error + unit" where
  "check_for_uncommitted_changes repo =
     (case repo of
        Inl e \<Rightarrow> Inl e
      | Inr is_dirty \<Rightarrow>
          if is_dirty
          then Inl (PyException (''Uncommitted changes found in local git repo. '' @
                                ''Commit all changes before running experiments '' @
                                ''to maintain reproducibility.''))
          else Inr ())"

text \<open>
  \<^verbatim>\<open>str.lower\<close> on the ASCII letters; every other character is left as it is (none
  of them lowers to a letter of the four accepted answers).
\<close>

definition lower_char :: "char \<Rightarrow> char" where
  "lower_char c =
     (case map_of (zip ''ABCDEFGHIJKLMNOPQRSTUVWXYZ'' ''abcdefghijklmnopqrstuvwxyz'') c of
        None \<Rightarrow> c
      | Some l \<Rightarrow> l)"

definition lower :: "string \<Rightarrow> string" where
  "lower s = map lower_char s"

text \<open>
  The loop of lines 144 and 145. Standard input is the list of the lines still to be
  read; \<^verbatim>\<open>input\<close> raises EOFError when none is left.
\<close>

fun confirm_loop :: "string \<Rightarrow> string list \<Rightarrow> error + bool" where
  "confirm_loop answer inputs =
     (if answer \<notin> set [''y'', ''yes'', ''n'', ''no'']
      then (case inputs of
              [] \<Rightarrow> Inl EOFError
            | line # rest \<Rightarrow> confirm_loop (lower line) rest)
      else Inr (answer \<in> set [''y'', ''yes'']))"

declare confirm_loop.simps [simp del]

text \<open>The loop starts from the empty answer.\<close>

definition confirm_allow_dirty_repo :: "string list \<Rightarrow> error + bool" where
  "confirm_allow_dirty_repo inputs = confirm_loop [] inputs"

section \<open>parse_args_and_configuration\<close>

text \<open>The namespace that \<^verbatim>\<open>argparse\<close> returns, one attribute per argument.\<close>

record namespace =
  arg_yaml_config :: string
  arg_test :: bool
  arg_no_logging :: bool
  arg_no_checkpointing :: bool
  arg_allow_dirty_repo :: bool

definition vars :: "namespace \<Rightarrow> (string \<times> pyval) list" where
  "vars args =
     [(''yaml_config'', PStr (arg_yaml_config args)),
      (''test'', PBool (arg_test args)),
      (''no_logging'', PBool (arg_no_logging args)),
      (''no_checkpointing'', PBool (arg_no_checkpointing args)),
      (''allow_dirty_repo'', PBool (arg_allow_dirty_repo args))]"

text \<open>
  What the run reads from its surroundings: the host name, the state of the git
  repository, the lines typed on standard input, the outcome of opening and loading the
  YAML file, the module's \<^verbatim>\<open>PROJECT_ROOT\<close>, and the two identifiers issued from
  outside (\<^verbatim>\<open>uuid.uuid1()\<close> and the tracking session's id).
\<close>

record environment =
  nodename :: string
  git_repo :: "error + bool"
  stdin :: "string list"
  yaml_file :: "error + pyval"
  project_root :: string
  uuid1 :: string
  wandb_id :: string

text \<open>Lines 173 to 178: the namespace after the gate, or the error that stops the run.\<close>

definition gate :: "environment \<Rightarrow> namespace \<Rightarrow> error + namespace" where
  "gate env args =
     (if arg_test args then Inr (args\<lparr>arg_no_logging := True\<rparr>)
      else
        (case (if arg_allow_dirty_repo args then confirm_allow_dirty_repo (stdin env)
               else Inr False) of
           Inl e \<Rightarrow> Inl e
         | Inr confirmed \<Rightarrow>
             if confirmed then Inr (args\<lparr>arg_no_logging := True\<rparr>)
             else (case check_for_uncommitted_changes (git_repo env) of
                     Inl e \<Rightarrow> Inl e
                   | Inr u \<Rightarrow> Inr args)))"

definition parse_args_and_configuration ::
  "environment \<Rightarrow> namespace \<Rightarrow> error + (string \<times> pyval) list" where
  "parse_args_and_configuration env args =
     (case gate env args of
        Inl e \<Rightarrow> Inl e
      | Inr args1 \<Rightarrow>
          (case yaml_file env of
             Inl e \<Rightarrow> Inl e
           | Inr configuration \<Rightarrow>
               (case configuration of
                  PDict d \<Rightarrow>
                    Inr (dict_merge
                           (dict_merge [(''training_node_name'', PStr (nodename env))] d)
                           (vars args1))
                | _ \<Rightarrow> Inl TypeError)))"

section \<open>run\<close>

text \<open>
  A call \<^verbatim>\<open>f(k=v, **a, **b)\<close> builds its keyword arguments from left to right; an
  unpacked object that is not a mapping, or a key that is already among the keyword
  arguments, raises TypeError.
\<close>

fun unpack_kwargs :: "(string \<times> pyval) list \<Rightarrow> pyval \<Rightarrow> error + (string \<times> pyval) list" where
  "unpack_kwargs kwargs (PDict d) =
     (if \<exists>k \<in> set (map fst d). k \<in> set (map fst kwargs) then Inl TypeError
      else Inr (kwargs @ d))"
| "unpack_kwargs kwargs v = Inl TypeError"

text \<open>Lines 214 to 218: the keyword arguments of \<^verbatim>\<open>DataModule\<close>.\<close>

definition datamodule_kwargs :: "(string \<times> pyval) list \<Rightarrow> error + (string \<times> pyval) list" where
  "datamodule_kwargs config =
     (case getitem config ''batch_size'' of
        Inl e \<Rightarrow> Inl e
      | Inr batch_size \<Rightarrow>
          (case getitem config ''shared_parameters'' of
             Inl e \<Rightarrow> Inl e
           | Inr shared \<Rightarrow>
               (case unpack_kwargs [(''batch_size'', batch_size)] (py_or shared (PDict [])) of
                  Inl e \<Rightarrow> Inl e
                | Inr kwargs \<Rightarrow>
                    (case getitem config ''data_module_parameters'' of
                       Inl e \<Rightarrow> Inl e
                     | Inr specific \<Rightarrow> unpack_kwargs kwargs (py_or specific (PDict []))))))"

text \<open>Lines 219 to 222: the keyword arguments of \<^verbatim>\<open>TrainingMotionPolicyNetwork\<close>.\<close>

definition model_kwargs :: "(string \<times> pyval) list \<Rightarrow> error + (string \<times> pyval) list" where
  "model_kwargs config =
     (case getitem config ''shared_parameters'' of
        Inl e \<Rightarrow> Inl e
      | Inr shared \<Rightarrow>
          (case unpack_kwargs [] (py_or shared (PDict [])) of
             Inl e \<Rightarrow> Inl e
           | Inr kwargs \<Rightarrow>
               (case getitem config ''training_model_parameters'' of
                  Inl e \<Rightarrow> Inl e
                | Inr specific \<Rightarrow> unpack_kwargs kwargs (py_or specific (PDict [])))))"

text \<open>Lines 204 to 213: the arguments are read from the configuration in call order.\<close>

definition trainer_of_config ::
  "environment \<Rightarrow> (string \<times> pyval) list \<Rightarrow> wandb_logger option \<Rightarrow> error + trainer" where
  "trainer_of_config env config logger =
     (case getitem config ''gpus'' of Inl e \<Rightarrow> Inl e | Inr gpus \<Rightarrow>
     (case getitem config ''test'' of Inl e \<Rightarrow> Inl e | Inr test \<Rightarrow>
     (case getitem config ''no_logging'' of Inl e \<Rightarrow> Inl e | Inr no_logging \<Rightarrow>
     (case getitem config ''no_checkpointing'' of Inl e \<Rightarrow> Inl e | Inr no_checkpointing \<Rightarrow>
     (case getitem config ''checkpoint_interval'' of Inl e \<Rightarrow> Inl e | Inr checkpoint_interval \<Rightarrow>
     (case getitem config ''save_checkpoint_dir'' of Inl e \<Rightarrow> Inl e | Inr checkpoint_dir \<Rightarrow>
     (case getitem config ''validation_interval'' of Inl e \<Rightarrow> Inl e | Inr validation_interval \<Rightarrow>
        setup_trainer (project_root env) (uuid1 env) gpus (truthy test)
          (\<not> truthy no_logging) (\<not> truthy no_checkpointing) logger
          checkpoint_interval checkpoint_dir validation_interval)))))))"

text \<open>
  What a run does to the outside, in order: the collaborators it constructs and the calls
  it makes on them. \<open>run\<close> returns the events up to the point where it stopped, and the
  error that stopped it, if any.
\<close>

datatype event =
    LoggerCreated wandb_logger
  | TrainerCreated trainer
  | DataModuleCreated "(string \<times> pyval) list"
  | ModelCreated "(string \<times> pyval) list"
  | Watch
  | Fit

definition run :: "environment \<Rightarrow> namespace \<Rightarrow> event list \<times> error option" where
  "run env args =
     (case parse_args_and_configuration env args of
        Inl e \<Rightarrow> ([], Some e)
      | Inr config \<Rightarrow>
     (case getitem config ''experiment_name'' of
        Inl e \<Rightarrow> ([], Some e)
      | Inr experiment_name \<Rightarrow>
     (case getitem config ''no_logging'' of
        Inl e \<Rightarrow> ([], Some e)
      | Inr no_logging \<Rightarrow>
     (let logger = setup_logger (wandb_id env) (\<not> truthy no_logging) experiment_name config;
          ev1 = (case logger of None \<Rightarrow> [] | Some l \<Rightarrow> [LoggerCreated l])
      in
     (case trainer_of_config env config logger of
        Inl e \<Rightarrow> (ev1, Some e)
      | Inr trainer \<Rightarrow>
     (let ev2 = ev1 @ [TrainerCreated trainer] in
     (case datamodule_kwargs config of
        Inl e \<Rightarrow> (ev2, Some e)
      | Inr dm \<Rightarrow>
     (let ev3 = ev2 @ [DataModuleCreated dm] in
     (case model_kwargs config of
        Inl e \<Rightarrow> (ev3, Some e)
      | Inr mdl \<Rightarrow>
     (let ev4 = ev3 @ [ModelCreated mdl] in
        (ev4 @ (if logger \<noteq> None then [Watch] else []) @ [Fit], None)))))))))))"

section \<open>Dictionaries\<close>

lemma map_of_dict_merge:
  "map_of (dict_merge d e) k =
     (case map_of (rev e) k of None \<Rightarrow> map_of d k | Some v \<Rightarrow> Some v)"
  unfolding dict_merge_def
  by (induction e arbitrary: d) (auto simp: update_conv' split: option.splits)

lemma map_of_rev_distinct: "distinct (map fst e) \<Longrightarrow> map_of (rev e) = map_of e"
  using map_of_inject_set [of "rev e" e] by (simp add: rev_map [symmetric])

lemma map_of_merge_vars:
  "map_of (dict_merge c (vars a)) ''test'' = Some (PBool (arg_test a))"
  "map_of (dict_merge c (vars a)) ''no_logging'' = Some (PBool (arg_no_logging a))"
  "map_of (dict_merge c (vars a)) ''no_checkpointing'' = Some (PBool (arg_no_checkpointing a))"
  "map_of (dict_merge c (vars a)) ''allow_dirty_repo'' = Some (PBool (arg_allow_dirty_repo a))"
  "map_of (dict_merge c (vars a)) ''yaml_config'' = Some (PStr (arg_yaml_config a))"
  by (simp_all add: map_of_dict_merge vars_def)

lemma map_of_merge_vars_other:
  "k \<notin> set (map fst (vars a)) \<Longrightarrow> map_of (dict_merge c (vars a)) k = map_of c k"
  by (simp add: map_of_dict_merge vars_def)

lemma unpack_kwargs_PDict:
  "unpack_kwargs kwargs (PDict d) =
     (if fst ` set d \<inter> fst ` set kwargs \<noteq> {} then Inl TypeError else Inr (kwargs @ d))"
  by force

section \<open>What setup_trainer returns\<close>

lemma execution_args_test:
  "map_of (execution_args gpus True validation_interval) ''limit_train_batches'' =
     Some (AVal (PInt 10))"
  "map_of (execution_args gpus True validation_interval) ''limit_val_batches'' =
     Some (AVal (PInt 3))"
  "map_of (execution_args gpus True validation_interval) ''val_check_interval'' =
     Some (AVal (PInt 2))"
  by (simp_all add: execution_args_def Let_def update_conv')

lemma execution_args_strategy:
  "map_of (execution_args gpus test vi) ''strategy'' =
     (if (\<exists>n. gpus = PInt n \<and> n > 1) \<or> (\<exists>xs. gpus = PList xs \<and> length xs > 1)
      then Some (AStrategy (DDPStrategy False)) else None)"
  by (cases gpus) (auto simp: execution_args_def Let_def update_conv' more_than_one_device_def)

lemma setup_trainer_Inr:
  "setup_trainer R u gpus test sl sc lg ci cd vi = Inr tr \<Longrightarrow>
     tr_kwargs tr = execution_args gpus test vi \<and>
     tr_max_epochs tr = (if test then 1 else 500) \<and>
     tr_gpus tr = gpus \<and> tr_enable_checkpointing tr = sl"
  by (auto simp: setup_trainer_def Let_def split: sum.splits if_splits)

lemma setup_trainer_error_gpus:
  "setup_trainer R u gpus test sl sc lg ci cd vi = Inl e \<longleftrightarrow>
   setup_trainer R u gpus' test sl sc lg ci cd vi = Inl e"
  by (auto simp: setup_trainer_def Let_def split: sum.splits if_splits)

text \<open>
  The function returns a trainer whenever a logger is there when logging is on and,
  with checkpointing on, a checkpoint directory is given.
\<close>

lemma setup_trainer_returns:
  "cd \<noteq> PNone \<or> \<not> sc \<Longrightarrow> sl \<longrightarrow> lg \<noteq> None \<Longrightarrow>
     \<exists>tr. setup_trainer R u gpus test sl sc lg ci cd vi = Inr tr"
  by (auto simp: setup_trainer_def experiment_id_of_def resolve_dirpath_def Let_def
           split: sum.splits option.splits)

lemma resolve_dirpath_explicit:
  "cd \<noteq> PNone \<Longrightarrow> resolve_dirpath R cd eid = Inr (PathObj (Join (Resolve (Path cd)) eid))"
  by (simp add: resolve_dirpath_def)

lemma resolve_dirpath_default: "resolve_dirpath R PNone eid = Inl TypeError"
  by (simp add: resolve_dirpath_def)

lemma setup_trainer_callbacks:
  "setup_trainer R u gpus test sl True lg ci cd vi = Inr tr \<Longrightarrow>
     \<exists>eid dirpath. experiment_id_of sl lg u = Inr eid \<and>
        resolve_dirpath R cd eid = Inr dirpath \<and>
        tr_callbacks tr = checkpoint_callbacks dirpath ci"
  by (auto simp: setup_trainer_def Let_def split: sum.splits)

lemma setup_trainer_no_checkpoint:
  "setup_trainer R u gpus test sl False lg ci cd vi = Inr tr \<Longrightarrow>
     tr_callbacks tr = [] \<and> tr_enable_checkpointing tr = sl"
  by (auto simp: setup_trainer_def Let_def split: sum.splits)

section \<open>The confirmation loop\<close>

lemma confirm_loop_done:
  "ans \<in> set [''y'', ''yes'', ''n'', ''no''] \<Longrightarrow>
     confirm_loop ans inputs = Inr (ans \<in> set [''y'', ''yes''])"
  by (subst confirm_loop.simps) simp

lemma confirm_loop_step:
  "ans \<notin> set [''y'', ''yes'', ''n'', ''no''] \<Longrightarrow>
     confirm_loop ans (line # rest) = confirm_loop (lower line) rest"
  by (subst confirm_loop.simps) simp

lemma confirm_loop_eof:
  "ans \<notin> set [''y'', ''yes'', ''n'', ''no''] \<Longrightarrow> confirm_loop ans [] = Inl EOFError"
  by (subst confirm_loop.simps) simp

text \<open>
  Lines that are none of the four answers are asked again; the first line that is one
  decides. A line that lowers to \<^verbatim>\<open>n\<close> or \<^verbatim>\<open>no\<close> gives False.
\<close>

lemma confirm_loop_negative:
  "\<forall>x \<in> set pre. lower x \<notin> set [''y'', ''yes'', ''n'', ''no''] \<Longrightarrow>
   lower a \<in> set [''n'', ''no''] \<Longrightarrow> ans \<notin> set [''y'', ''yes'', ''n'', ''no''] \<Longrightarrow>
   confirm_loop ans (pre @ a # rest) = Inr False"
proof (induction pre arbitrary: ans)
  case Nil
  then show ?case
    by (auto simp: confirm_loop_step confirm_loop_done)
next
  case (Cons p pre)
  then show ?case
    by (simp add: confirm_loop_step)
qed

section \<open>From the command line to the trainer\<close>

lemma gate_Inr:
  "gate env args = Inr args1 \<Longrightarrow>
     arg_test args1 = arg_test args \<and>
     arg_no_checkpointing args1 = arg_no_checkpointing args \<and>
     arg_allow_dirty_repo args1 = arg_allow_dirty_repo args \<and>
     arg_yaml_config args1 = arg_yaml_config args \<and>
     arg_no_logging args1 =
       (arg_no_logging args \<or> arg_test args \<or>
        (arg_allow_dirty_repo args \<and> confirm_allow_dirty_repo (stdin env) = Inr True))"
  by (auto simp: gate_def split: if_splits sum.splits)

lemma parse_Inr:
  "parse_args_and_configuration env args = Inr config \<Longrightarrow>
     \<exists>args1 d. gate env args = Inr args1 \<and> yaml_file env = Inr (PDict d) \<and>
        config =
          dict_merge (dict_merge [(''training_node_name'', PStr (nodename env))] d)
            (vars args1)"
  by (auto simp: parse_args_and_configuration_def split: sum.splits pyval.splits)

lemma trainer_of_config_Inr:
  "trainer_of_config env config logger = Inr tr \<Longrightarrow>
     \<exists>gpus test no_logging no_checkpointing ci cd vi.
        map_of config ''gpus'' = Some gpus \<and> map_of config ''test'' = Some test \<and>
        map_of config ''no_logging'' = Some no_logging \<and>
        map_of config ''no_checkpointing'' = Some no_checkpointing \<and>
        map_of config ''checkpoint_interval'' = Some ci \<and>
        map_of config ''save_checkpoint_dir'' = Some cd \<and>
        map_of config ''validation_interval'' = Some vi \<and>
        setup_trainer (project_root env) (uuid1 env) gpus (truthy test) (\<not> truthy no_logging)
          (\<not> truthy no_checkpointing) logger ci cd vi = Inr tr"
  by (auto simp: trainer_of_config_def getitem_def split: sum.splits option.splits)

lemma run_trainer_created:
  "TrainerCreated tr \<in> set (fst (run env args)) \<Longrightarrow>
     \<exists>config logger. parse_args_and_configuration env args = Inr config \<and>
        trainer_of_config env config logger = Inr tr"
  by (auto simp: run_def Let_def split: sum.splits option.splits if_splits)

text \<open>
  Every trainer a run constructs comes from \<open>setup_trainer\<close>, called with the test and
  checkpointing flags of the command line.
\<close>

lemma run_trainer_setup:
  assumes "TrainerCreated tr \<in> set (fst (run env args))"
  shows "\<exists>config logger gpus no_logging ci cd vi.
     parse_args_and_configuration env args = Inr config \<and>
     map_of config ''gpus'' = Some gpus \<and>
     map_of config ''checkpoint_interval'' = Some ci \<and>
     map_of config ''save_checkpoint_dir'' = Some cd \<and>
     map_of config ''validation_interval'' = Some vi \<and>
     setup_trainer (project_root env) (uuid1 env) gpus (arg_test args) (\<not> no_logging)
       (\<not> arg_no_checkpointing args) logger ci cd vi = Inr tr"
proof -
  from run_trainer_created [OF assms] obtain config logger where
    p: "parse_args_and_configuration env args = Inr config" and
    t: "trainer_of_config env config logger = Inr tr" by blast
  from parse_Inr [OF p] obtain args1 d where
    g: "gate env args = Inr args1" and
    c: "config =
          dict_merge (dict_merge [(''training_node_name'', PStr (nodename env))] d)
            (vars args1)"
    by blast
  have f: "map_of config ''test'' = Some (PBool (arg_test args))"
      "map_of config ''no_checkpointing'' = Some (PBool (arg_no_checkpointing args))"
      "map_of config ''no_logging'' = Some (PBool (arg_no_logging args1))"
    using gate_Inr [OF g] by (simp_all add: c map_of_merge_vars)
  from trainer_of_config_Inr [OF t] f p show ?thesis
    by fastforce
qed

section \<open>Two runs\<close>

text \<open>
  A run on a clean repository with \<^verbatim>\<open>--no-logging\<close>, whose file gives
  \<^verbatim>\<open>save_checkpoint_dir: null\<close>: it stops in \<open>setup_trainer\<close> with a TypeError,
  before the trainer exists.
\<close>

lemma run_without_checkpoint_dir:
  "run \<lparr>nodename = ''node'', git_repo = Inr False, stdin = [],
        yaml_file = Inr (PDict
          [(''experiment_name'', PStr ''exp''), (''gpus'', PInt 1),
           (''batch_size'', PInt 32), (''checkpoint_interval'', PInt 10),
           (''save_checkpoint_dir'', PNone),
           (''validation_interval'', PFloat (1 / 2)),
           (''shared_parameters'', PDict [(''num_robot_points'', PInt 2048)]),
           (''training_model_parameters'', PNone),
           (''data_module_parameters'', PDict [(''data_dir'', PStr ''/data'')])]),
        project_root = ''/proj'', uuid1 = ''abc123'', wandb_id = ''w1''\<rparr>
     \<lparr>arg_yaml_config = ''config.yaml'', arg_test = False, arg_no_logging = True,
      arg_no_checkpointing = False, arg_allow_dirty_repo = False\<rparr>
   = ([], Some TypeError)"
  by (simp add: run_def parse_args_and_configuration_def gate_def
        check_for_uncommitted_changes_def dict_merge_def vars_def getitem_def
        setup_logger_def trainer_of_config_def setup_trainer_def execution_args_def
        more_than_one_device_def experiment_id_of_def resolve_dirpath_def Let_def)

text \<open>
  A run on a clean repository with \<^verbatim>\<open>--no-checkpointing\<close> and logging left on: the
  trainer it constructs has no checkpoint callback and is told to checkpoint.
\<close>

lemma run_no_checkpointing_with_logging:
  "\<exists>tr. TrainerCreated tr \<in> set (fst (run
        \<lparr>nodename = ''node'', git_repo = Inr False, stdin = [],
         yaml_file = Inr (PDict
           [(''experiment_name'', PStr ''exp''), (''gpus'', PInt 1),
            (''batch_size'', PInt 32), (''checkpoint_interval'', PInt 10),
            (''save_checkpoint_dir'', PStr ''/ckpt''),
            (''validation_interval'', PFloat (1 / 2)),
            (''shared_parameters'', PDict [(''num_robot_points'', PInt 2048)]),
            (''training_model_parameters'', PNone),
            (''data_module_parameters'', PDict [(''data_dir'', PStr ''/data'')])]),
         project_root = ''/proj'', uuid1 = ''abc123'', wandb_id = ''w1''\<rparr>
        \<lparr>arg_yaml_config = ''config.yaml'', arg_test = False, arg_no_logging = False,
         arg_no_checkpointing = True, arg_allow_dirty_repo = False\<rparr>)) \<and>
      tr_callbacks tr = [] \<and> tr_enable_checkpointing tr"
  by (auto simp: run_def parse_args_and_configuration_def gate_def
        check_for_uncommitted_changes_def dict_merge_def vars_def getitem_def
        setup_logger_def trainer_of_config_def setup_trainer_def execution_args_def
        more_than_one_device_def experiment_id_of_def resolve_dirpath_def
        datamodule_kwargs_def model_kwargs_def py_or_def Let_def)

section \<open>The claims\<close>

text \<open>
  C1. With checkpointing enabled the checkpoint directory is the explicit root, when one
  is given, joined with the experiment identity, and otherwise a default root under the
  project joined with the experiment identity; with identity \<^verbatim>\<open>abc123\<close> and no explicit
  root the resolution succeeds. The first half holds (\<open>resolve_dirpath_explicit\<close>). The
  second does not: line 71 applies \<^verbatim>\<open>/\<close> to \<^verbatim>\<open>PROJECT_ROOT\<close>, which line 16 made
  a str, so the call below, with checkpointing on, no directory and the identity
  \<^verbatim>\<open>abc123\<close>, ends in a TypeError and no directory is resolved.
\<close>

theorem default_checkpoint_root_raises:
  "setup_trainer ''/proj'' ''abc123'' (PInt 1) False False True None (PInt 10) PNone
     (PFloat (1 / 2)) = Inl TypeError"
  by (simp add: setup_trainer_def experiment_id_of_def resolve_dirpath_def Let_def)

text \<open>
  C2. With the checkpoint flag off the trainer has no checkpoint triggers and runs
  without any checkpoint persistence, whatever the other flags are. The callbacks are
  indeed empty (\<open>setup_trainer_no_checkpoint\<close>), but line 89 hands the trainer
  \<^verbatim>\<open>enable_checkpointing=should_log\<close>: with logging on and checkpointing off the
  trainer is told to checkpoint.
\<close>

theorem checkpointing_off_logging_on_enables_checkpointing:
  "setup_trainer ''/proj'' ''abc123'' (PInt 1) False True False
     (Some \<lparr>wl_name = PStr ''exp'', wl_project = ''mpinets'', wl_log_model = True,
            wl_experiment_id = ''w1'', wl_hyperparams = []\<rparr>)
     (PInt 10) (PStr ''/ckpt'') (PFloat (1 / 2))
   = Inr \<lparr>tr_enable_checkpointing = True, tr_callbacks = [], tr_max_epochs = 500,
          tr_gradient_clip_val = PFloat 1, tr_gpus = PInt 1, tr_precision = 16,
          tr_logger = LoggerObj \<lparr>wl_name = PStr ''exp'', wl_project = ''mpinets'',
                                 wl_log_model = True, wl_experiment_id = ''w1'',
                                 wl_hyperparams = []\<rparr>,
          tr_kwargs = [(''val_check_interval'', AVal (PFloat (1 / 2)))]\<rparr>"
  by (simp add: setup_trainer_def execution_args_def more_than_one_device_def
        experiment_id_of_def Let_def)

text \<open>
  C3. A flag left at its default off value does not replace the value the file gives for
  its key. It does: the file says \<^verbatim>\<open>no_logging: true\<close>, no flag is passed, the
  repository is clean, and the merged configuration has \<^verbatim>\<open>no_logging\<close> False.
\<close>

theorem file_no_logging_replaced_by_default_flag:
  "parse_args_and_configuration
     \<lparr>nodename = ''node'', git_repo = Inr False, stdin = [],
      yaml_file = Inr (PDict [(''no_logging'', PBool True)]),
      project_root = ''/proj'', uuid1 = ''abc123'', wandb_id = ''w1''\<rparr>
     \<lparr>arg_yaml_config = ''config.yaml'', arg_test = False, arg_no_logging = False,
      arg_no_checkpointing = False, arg_allow_dirty_repo = False\<rparr>
   = Inr [(''training_node_name'', PStr ''node''), (''no_logging'', PBool False),
          (''yaml_config'', PStr ''config.yaml''), (''test'', PBool False),
          (''no_checkpointing'', PBool False), (''allow_dirty_repo'', PBool False)]"
  by (simp add: parse_args_and_configuration_def gate_def check_for_uncommitted_changes_def
        dict_merge_def vars_def)

text \<open>
  C3, as the code has it. In the merged configuration every flag's key holds the flag's
  value, whatever the file gives for that key: \<^verbatim>\<open>no_logging\<close> is on exactly when the
  flag is passed, or test mode is requested, or the dirty-repository override is
  requested and confirmed. An entry of the file is kept under every key that is not the
  name of a command-line argument.
\<close>

theorem flags_replace_file_values:
  "parse_args_and_configuration env args = Inr config \<Longrightarrow>
     map_of config ''test'' = Some (PBool (arg_test args)) \<and>
     map_of config ''no_checkpointing'' = Some (PBool (arg_no_checkpointing args)) \<and>
     map_of config ''allow_dirty_repo'' = Some (PBool (arg_allow_dirty_repo args)) \<and>
     map_of config ''yaml_config'' = Some (PStr (arg_yaml_config args)) \<and>
     map_of config ''no_logging'' =
       Some (PBool (arg_no_logging args \<or> arg_test args \<or>
                    (arg_allow_dirty_repo args \<and>
                     confirm_allow_dirty_repo (stdin env) = Inr True))) \<and>
     (\<forall>d k v. yaml_file env = Inr (PDict d) \<longrightarrow> distinct (map fst d) \<longrightarrow>
        k \<notin> set (map fst (vars args)) \<longrightarrow> map_of d k = Some v \<longrightarrow>
        map_of config k = Some v)"
proof -
  assume a: "parse_args_and_configuration env args = Inr config"
  from parse_Inr [OF a] obtain args1 d where
    g: "gate env args = Inr args1" and y: "yaml_file env = Inr (PDict d)" and
    c: "config =
          dict_merge (dict_merge [(''training_node_name'', PStr (nodename env))] d)
            (vars args1)"
    by blast
  note p = gate_Inr [OF g]
  have keys: "map fst (vars args1) = map fst (vars args)"
    by (simp add: vars_def)
  have flags: "map_of config ''test'' = Some (PBool (arg_test args)) \<and>
     map_of config ''no_checkpointing'' = Some (PBool (arg_no_checkpointing args)) \<and>
     map_of config ''allow_dirty_repo'' = Some (PBool (arg_allow_dirty_repo args)) \<and>
     map_of config ''yaml_config'' = Some (PStr (arg_yaml_config args)) \<and>
     map_of config ''no_logging'' =
       Some (PBool (arg_no_logging args \<or> arg_test args \<or>
                    (arg_allow_dirty_repo args \<and>
                     confirm_allow_dirty_repo (stdin env) = Inr True)))"
    using p by (simp add: c map_of_merge_vars)
  have other: "map_of config k = Some v"
    if "yaml_file env = Inr (PDict d')" "distinct (map fst d')"
       "k \<notin> set (map fst (vars args))" "map_of d' k = Some v" for d' k v
  proof -
    have d': "d' = d"
      using that(1) y by simp
    have "k \<notin> set (map fst (vars args1))"
      using that(3) keys by simp
    then have "map_of config k =
        map_of (dict_merge [(''training_node_name'', PStr (nodename env))] d) k"
      unfolding c by (rule map_of_merge_vars_other)
    also have "\<dots> = Some v"
      using that(2,4) unfolding d' by (simp add: map_of_dict_merge map_of_rev_distinct)
    finally show ?thesis .
  qed
  show ?thesis
    using flags other by blast
qed

theorem flags_replace_file_values_witness:
  "\<exists>config.
     parse_args_and_configuration
       \<lparr>nodename = ''node'', git_repo = Inr True, stdin = [],
        yaml_file = Inr (PDict [(''no_logging'', PBool False), (''gpus'', PInt 2)]),
        project_root = ''/proj'', uuid1 = ''abc123'', wandb_id = ''w1''\<rparr>
       \<lparr>arg_yaml_config = ''config.yaml'', arg_test = True, arg_no_logging = False,
        arg_no_checkpointing = False, arg_allow_dirty_repo = False\<rparr> = Inr config \<and>
     map_of config ''no_logging'' = Some (PBool True) \<and>
     map_of config ''test'' = Some (PBool True) \<and>
     map_of config ''gpus'' = Some (PInt 2)"
proof -
  let ?env = "\<lparr>nodename = ''node'', git_repo = Inr True, stdin = [],
        yaml_file = Inr (PDict [(''no_logging'', PBool False), (''gpus'', PInt 2)]),
        project_root = ''/proj'', uuid1 = ''abc123'', wandb_id = ''w1''\<rparr>"
  let ?args = "\<lparr>arg_yaml_config = ''config.yaml'', arg_test = True, arg_no_logging = False,
        arg_no_checkpointing = False, arg_allow_dirty_repo = False\<rparr>"
  obtain config where h: "parse_args_and_configuration ?env ?args = Inr config"
    by (simp add: parse_args_and_configuration_def gate_def)
  have "map_of config ''no_logging'' = Some (PBool True) \<and>
        map_of config ''test'' = Some (PBool True) \<and>
        map_of config ''gpus'' = Some (PInt 2)"
    using flags_replace_file_values [OF h] by (simp add: vars_def)
  with h show ?thesis by blast
qed

text \<open>
  C4. The shared parameters reach both collaborators identically, and on a key collision
  the component-specific value takes effect instead of the construction failing. On a
  collision the call fails: here the shared mapping and the data module's own mapping
  both have \<^verbatim>\<open>num_robot_points\<close>.
\<close>

theorem shared_key_collision_raises:
  "datamodule_kwargs
     [(''batch_size'', PInt 32),
      (''shared_parameters'', PDict [(''num_robot_points'', PInt 2048)]),
      (''data_module_parameters'', PDict [(''num_robot_points'', PInt 1024)]),
      (''training_model_parameters'', PDict [])]
   = Inl TypeError"
  by (simp add: datamodule_kwargs_def getitem_def py_or_def)

text \<open>
  C4, as the code has it. The data collaborator is constructed with the batch size, then
  the shared parameters, then its own parameters; the model collaborator with the shared
  parameters, then its own. When a key occurs twice among the keyword arguments of a call
  (in the shared and the component-specific mapping, or \<^verbatim>\<open>batch_size\<close> in a mapping
  of the data collaborator) that call raises TypeError and nothing is overridden.
  When both calls go through, each shared key has the same value in both.
\<close>

theorem collaborator_kwargs:
  "getitem config ''batch_size'' = Inr batch_size \<Longrightarrow>
   getitem config ''shared_parameters'' = Inr sp \<Longrightarrow>
   py_or sp (PDict []) = PDict shared \<Longrightarrow>
   getitem config ''data_module_parameters'' = Inr dp \<Longrightarrow>
   py_or dp (PDict []) = PDict dm_specific \<Longrightarrow>
   getitem config ''training_model_parameters'' = Inr mp \<Longrightarrow>
   py_or mp (PDict []) = PDict mdl_specific \<Longrightarrow>
     datamodule_kwargs config =
       (if ''batch_size'' \<in> fst ` set shared \<or>
           fst ` set dm_specific \<inter> insert ''batch_size'' (fst ` set shared) \<noteq> {}
        then Inl TypeError
        else Inr ((''batch_size'', batch_size) # shared @ dm_specific)) \<and>
     model_kwargs config =
       (if fst ` set mdl_specific \<inter> fst ` set shared \<noteq> {} then Inl TypeError
        else Inr (shared @ mdl_specific)) \<and>
     (\<forall>dm mdl k. datamodule_kwargs config = Inr dm \<longrightarrow> model_kwargs config = Inr mdl \<longrightarrow>
        k \<in> fst ` set shared \<longrightarrow> map_of dm k = map_of shared k \<and> map_of mdl k = map_of shared k)"
proof -
  assume a: "getitem config ''batch_size'' = Inr batch_size"
    "getitem config ''shared_parameters'' = Inr sp" "py_or sp (PDict []) = PDict shared"
    "getitem config ''data_module_parameters'' = Inr dp"
    "py_or dp (PDict []) = PDict dm_specific"
    "getitem config ''training_model_parameters'' = Inr mp"
    "py_or mp (PDict []) = PDict mdl_specific"
  have dm: "datamodule_kwargs config =
       (if ''batch_size'' \<in> fst ` set shared \<or>
           fst ` set dm_specific \<inter> insert ''batch_size'' (fst ` set shared) \<noteq> {}
        then Inl TypeError
        else Inr ((''batch_size'', batch_size) # shared @ dm_specific))"
    using a by (simp add: datamodule_kwargs_def unpack_kwargs_PDict del: unpack_kwargs.simps)
  have mdl: "model_kwargs config =
       (if fst ` set mdl_specific \<inter> fst ` set shared \<noteq> {} then Inl TypeError
        else Inr (shared @ mdl_specific))"
    using a by (simp add: model_kwargs_def unpack_kwargs_PDict del: unpack_kwargs.simps)
  have same: "map_of dm' k = map_of shared k \<and> map_of mdl' k = map_of shared k"
    if "datamodule_kwargs config = Inr dm'" "model_kwargs config = Inr mdl'"
       "k \<in> fst ` set shared" for dm' mdl' k
  proof -
    from that(3) obtain v where v: "map_of shared k = Some v"
      by (metis domD dom_map_of_conv_image_fst)
    have "dm' = (''batch_size'', batch_size) # shared @ dm_specific"
      and nb: "''batch_size'' \<notin> fst ` set shared"
      using that(1) unfolding dm by (simp_all split: if_splits)
    moreover have "k \<noteq> ''batch_size''"
      using that(3) nb by blast
    moreover have "mdl' = shared @ mdl_specific"
      using that(2) unfolding mdl by (auto split: if_splits)
    ultimately show ?thesis
      using v by (simp add: map_add_def)
  qed
  show ?thesis
    using dm mdl same by blast
qed

theorem collaborator_kwargs_witness:
  "datamodule_kwargs
     [(''batch_size'', PInt 32),
      (''shared_parameters'', PDict [(''num_robot_points'', PInt 2048)]),
      (''data_module_parameters'', PDict [(''data_dir'', PStr ''/data'')]),
      (''training_model_parameters'', PNone)]
   = Inr [(''batch_size'', PInt 32), (''num_robot_points'', PInt 2048),
          (''data_dir'', PStr ''/data'')] \<and>
   model_kwargs
     [(''batch_size'', PInt 32),
      (''shared_parameters'', PDict [(''num_robot_points'', PInt 2048)]),
      (''data_module_parameters'', PDict [(''data_dir'', PStr ''/data'')]),
      (''training_model_parameters'', PNone)]
   = Inr [(''num_robot_points'', PInt 2048)]"
  using collaborator_kwargs
    [where config = "[(''batch_size'', PInt 32),
        (''shared_parameters'', PDict [(''num_robot_points'', PInt 2048)]),
        (''data_module_parameters'', PDict [(''data_dir'', PStr ''/data'')]),
        (''training_model_parameters'', PNone)]"
      and batch_size = "PInt 32" and sp = "PDict [(''num_robot_points'', PInt 2048)]"
      and shared = "[(''num_robot_points'', PInt 2048)]"
      and dp = "PDict [(''data_dir'', PStr ''/data'')]"
      and dm_specific = "[(''data_dir'', PStr ''/data'')]"
      and mp = PNone and mdl_specific = "[]"]
  by (simp add: getitem_def py_or_def)

text \<open>
  C5. A device count of zero or less makes the strategy selection fail with a
  configuration error. It does not: with zero devices \<open>setup_trainer\<close> returns a trainer,
  with no strategy among its arguments.
\<close>

theorem zero_devices_returns_trainer:
  "setup_trainer ''/proj'' ''abc123'' (PInt 0) False False False None (PInt 10) PNone
     (PFloat (1 / 2))
   = Inr \<lparr>tr_enable_checkpointing = False, tr_callbacks = [], tr_max_epochs = 500,
          tr_gradient_clip_val = PFloat 1, tr_gpus = PInt 0, tr_precision = 16,
          tr_logger = LoggerFalse,
          tr_kwargs = [(''val_check_interval'', AVal (PFloat (1 / 2)))]\<rparr>"
  by (simp add: setup_trainer_def execution_args_def more_than_one_device_def
        experiment_id_of_def Let_def)

text \<open>
  C5, as the code has it. For an integer device count of zero or less, or an empty list
  of devices, no strategy is selected; \<open>setup_trainer\<close> raises an error only where it
  raises the same error for a device count of 1, and the trainer it returns is given the
  device count unchanged.
\<close>

theorem nonpositive_device_count_selects_no_strategy:
  "(\<exists>n. gpus = PInt n \<and> n \<le> 0) \<or> gpus = PList [] \<Longrightarrow>
     map_of (execution_args gpus test vi) ''strategy'' = None \<and>
     (\<forall>e. setup_trainer R u gpus test sl sc lg ci cd vi = Inl e \<longleftrightarrow>
          setup_trainer R u (PInt 1) test sl sc lg ci cd vi = Inl e) \<and>
     (\<forall>tr. setup_trainer R u gpus test sl sc lg ci cd vi = Inr tr \<longrightarrow>
          tr_gpus tr = gpus \<and> map_of (tr_kwargs tr) ''strategy'' = None)"
proof -
  assume a: "(\<exists>n. gpus = PInt n \<and> n \<le> 0) \<or> gpus = PList []"
  have s: "map_of (execution_args gpus test vi) ''strategy'' = None"
    using a by (auto simp: execution_args_strategy)
  show ?thesis
    using s setup_trainer_error_gpus [of R u gpus test sl sc lg ci cd vi _ "PInt 1"]
      setup_trainer_Inr [of R u gpus test sl sc lg ci cd vi]
    by auto
qed

theorem nonpositive_device_count_selects_no_strategy_witness:
  "map_of (execution_args (PInt (- 1)) False (PFloat (1 / 2))) ''strategy'' = None \<and>
   (\<exists>tr. setup_trainer ''/proj'' ''abc123'' (PInt (- 1)) False False True None (PInt 10)
            (PStr ''/ckpt'') (PFloat (1 / 2)) = Inr tr \<and>
          tr_gpus tr = PInt (- 1) \<and> map_of (tr_kwargs tr) ''strategy'' = None)"
proof -
  have h: "(\<exists>n. PInt (- 1) = PInt n \<and> n \<le> 0) \<or> PInt (- 1) = PList []"
    by simp
  have "\<exists>tr. setup_trainer ''/proj'' ''abc123'' (PInt (- 1)) False False True None
      (PInt 10) (PStr ''/ckpt'') (PFloat (1 / 2)) = Inr tr"
    by (rule setup_trainer_returns) simp_all
  then obtain tr where t: "setup_trainer ''/proj'' ''abc123'' (PInt (- 1)) False False True None
      (PInt 10) (PStr ''/ckpt'') (PFloat (1 / 2)) = Inr tr" ..
  from nonpositive_device_count_selects_no_strategy [OF h] t show ?thesis
    by blast
qed

text \<open>
  C6. The strategy is data-parallel, with unused-parameter detection disabled, exactly
  when the device count is an integer greater than 1 or a list of more than one device;
  otherwise no strategy is given to the trainer, which then runs without parallelism.
\<close>

theorem strategy_selection:
  "map_of (execution_args gpus test vi) ''strategy'' =
     (if (\<exists>n. gpus = PInt n \<and> n > 1) \<or> (\<exists>xs. gpus = PList xs \<and> length xs > 1)
      then Some (AStrategy (DDPStrategy False)) else None) \<and>
   (\<forall>tr. setup_trainer R u gpus test sl sc lg ci cd vi = Inr tr \<longrightarrow>
      map_of (tr_kwargs tr) ''strategy'' =
        (if (\<exists>n. gpus = PInt n \<and> n > 1) \<or> (\<exists>xs. gpus = PList xs \<and> length xs > 1)
         then Some (AStrategy (DDPStrategy False)) else None))"
  using setup_trainer_Inr [of R u gpus test sl sc lg ci cd vi]
  by (simp add: execution_args_strategy)

theorem strategy_selection_witness:
  "(\<exists>tr. setup_trainer ''/proj'' ''abc123'' (PList [PInt 0, PInt 1, PInt 2, PInt 3]) False
            False False None (PInt 10) PNone (PFloat (1 / 2)) = Inr tr \<and>
          map_of (tr_kwargs tr) ''strategy'' = Some (AStrategy (DDPStrategy False))) \<and>
   (\<exists>tr. setup_trainer ''/proj'' ''abc123'' (PInt 1) False
            False False None (PInt 10) PNone (PFloat (1 / 2)) = Inr tr \<and>
          map_of (tr_kwargs tr) ''strategy'' = None)"
proof -
  have "\<exists>tr4. setup_trainer ''/proj'' ''abc123''
      (PList [PInt 0, PInt 1, PInt 2, PInt 3]) False False False None (PInt 10) PNone
      (PFloat (1 / 2)) = Inr tr4"
    by (rule setup_trainer_returns) simp_all
  then obtain tr4 where t4: "setup_trainer ''/proj'' ''abc123''
      (PList [PInt 0, PInt 1, PInt 2, PInt 3]) False False False None (PInt 10) PNone
      (PFloat (1 / 2)) = Inr tr4" ..
  have "\<exists>tr1. setup_trainer ''/proj'' ''abc123'' (PInt 1) False False False None
      (PInt 10) PNone (PFloat (1 / 2)) = Inr tr1"
    by (rule setup_trainer_returns) simp_all
  then obtain tr1 where t1: "setup_trainer ''/proj'' ''abc123'' (PInt 1) False False False None
      (PInt 10) PNone (PFloat (1 / 2)) = Inr tr1" ..
  have "map_of (tr_kwargs tr4) ''strategy'' = Some (AStrategy (DDPStrategy False))"
    using strategy_selection [where gpus = "PList [PInt 0, PInt 1, PInt 2, PInt 3]"] t4
    by fastforce
  moreover have "map_of (tr_kwargs tr1) ''strategy'' = None"
    using strategy_selection [where gpus = "PInt 1"] t1 by fastforce
  ultimately show ?thesis
    using t4 t1 by blast
qed

text \<open>
  C7. With checkpointing enabled, the trainer that \<open>setup_trainer\<close> returns has two
  checkpoint callbacks, the wall-clock trigger and the epoch-end trigger, in this order.
  Both write to the one resolved directory, both keep a most recent checkpoint, and the
  names under which they keep it differ.
\<close>

theorem checkpoint_triggers_share_directory_distinct_names:
  "setup_trainer R u gpus test sl True lg ci cd vi = Inr tr \<Longrightarrow>
     \<exists>every_n epoch_end eid dirpath.
        tr_callbacks tr = [every_n, epoch_end] \<and>
        experiment_id_of sl lg u = Inr eid \<and> resolve_dirpath R cd eid = Inr dirpath \<and>
        mc_dirpath every_n = dirpath \<and> mc_dirpath epoch_end = dirpath \<and>
        mc_train_time_interval every_n = Some (Minutes ci) \<and>
        mc_save_on_train_epoch_end epoch_end = Some True \<and>
        mc_save_last every_n = Some True \<and> mc_save_last epoch_end = Some True \<and>
        mc_CHECKPOINT_NAME_LAST every_n \<noteq> mc_CHECKPOINT_NAME_LAST epoch_end"
proof -
  assume "setup_trainer R u gpus test sl True lg ci cd vi = Inr tr"
  from setup_trainer_callbacks [OF this] obtain eid dirpath where
    e: "experiment_id_of sl lg u = Inr eid" and d: "resolve_dirpath R cd eid = Inr dirpath" and
    c: "tr_callbacks tr = checkpoint_callbacks dirpath ci" by blast
  show ?thesis
    using e d by (simp add: c checkpoint_callbacks_def ModelCheckpoint_def Let_def)
qed

theorem checkpoint_triggers_share_directory_distinct_names_witness:
  "\<exists>tr every_n epoch_end.
     setup_trainer ''/proj'' ''abc123'' (PInt 1) False False True None (PInt 10)
       (PStr ''/ckpt'') (PFloat (1 / 2)) = Inr tr \<and>
     tr_callbacks tr = [every_n, epoch_end] \<and>
     mc_dirpath every_n = PathObj (Join (Resolve (Path (PStr ''/ckpt''))) ''abc123'') \<and>
     mc_dirpath epoch_end = PathObj (Join (Resolve (Path (PStr ''/ckpt''))) ''abc123'') \<and>
     mc_CHECKPOINT_NAME_LAST every_n \<noteq> mc_CHECKPOINT_NAME_LAST epoch_end"
proof -
  have "\<exists>tr. setup_trainer ''/proj'' ''abc123'' (PInt 1) False False True None
      (PInt 10) (PStr ''/ckpt'') (PFloat (1 / 2)) = Inr tr"
    by (rule setup_trainer_returns) simp_all
  then obtain tr where t: "setup_trainer ''/proj'' ''abc123'' (PInt 1) False False True None
      (PInt 10) (PStr ''/ckpt'') (PFloat (1 / 2)) = Inr tr" ..
  from checkpoint_triggers_share_directory_distinct_names [OF t]
  obtain every_n epoch_end eid dirpath where
    r: "tr_callbacks tr = [every_n, epoch_end]"
       "experiment_id_of False None ''abc123'' = Inr eid"
       "resolve_dirpath ''/proj'' (PStr ''/ckpt'') eid = Inr dirpath"
       "mc_dirpath every_n = dirpath" "mc_dirpath epoch_end = dirpath"
       "mc_CHECKPOINT_NAME_LAST every_n \<noteq> mc_CHECKPOINT_NAME_LAST epoch_end"
    by blast
  have "eid = ''abc123''"
    using r(2) by (simp add: experiment_id_of_def)
  then have dp: "dirpath = PathObj (Join (Resolve (Path (PStr ''/ckpt''))) ''abc123'')"
    using r(3) by (simp add: resolve_dirpath_def)
  show ?thesis
    apply (rule exI [of _ tr], rule exI [of _ every_n], rule exI [of _ epoch_end])
    using t r(1,4,5,6) dp by simp
qed

text \<open>
  C8. In test mode the keyword arguments limit the training batches to 10 and the
  validation batches to 3, and the validation interval is 2 whatever interval was
  requested; these are the keyword arguments of the trainer that is returned.
\<close>

theorem test_mode_execution_plan:
  "map_of (execution_args gpus True validation_interval) ''limit_train_batches'' =
     Some (AVal (PInt 10)) \<and>
   map_of (execution_args gpus True validation_interval) ''limit_val_batches'' =
     Some (AVal (PInt 3)) \<and>
   map_of (execution_args gpus True validation_interval) ''val_check_interval'' =
     Some (AVal (PInt 2)) \<and>
   (\<forall>tr. setup_trainer R u gpus True sl sc lg ci cd validation_interval = Inr tr \<longrightarrow>
      tr_kwargs tr = execution_args gpus True validation_interval)"
  using setup_trainer_Inr [of R u gpus True sl sc lg ci cd validation_interval]
  by (simp add: execution_args_test)

theorem test_mode_execution_plan_witness:
  "\<exists>tr. setup_trainer ''/proj'' ''abc123'' (PInt 1) True False False None (PInt 10) PNone
          (PFloat (1 / 2)) = Inr tr \<and>
        map_of (tr_kwargs tr) ''limit_train_batches'' = Some (AVal (PInt 10)) \<and>
        map_of (tr_kwargs tr) ''limit_val_batches'' = Some (AVal (PInt 3)) \<and>
        map_of (tr_kwargs tr) ''val_check_interval'' = Some (AVal (PInt 2))"
proof -
  have "\<exists>tr. setup_trainer ''/proj'' ''abc123'' (PInt 1) True False False None
      (PInt 10) PNone (PFloat (1 / 2)) = Inr tr"
    by (rule setup_trainer_returns) simp_all
  then obtain tr where t: "setup_trainer ''/proj'' ''abc123'' (PInt 1) True False False None
      (PInt 10) PNone (PFloat (1 / 2)) = Inr tr" ..
  show ?thesis
    using test_mode_execution_plan
      [where gpus = "PInt 1" and validation_interval = "PFloat (1 / 2)"] t
    by fastforce
qed

text \<open>
  C9. Test mode off, the dirty-repository override requested, the confirmation answered
  negatively, and tracked files with uncommitted changes: the run stops with the
  exception of \<open>check_for_uncommitted_changes\<close>, and nothing has been constructed.
\<close>

theorem declined_override_on_dirty_tree_aborts:
  "\<not> arg_test args \<Longrightarrow> arg_allow_dirty_repo args \<Longrightarrow>
   confirm_allow_dirty_repo (stdin env) = Inr False \<Longrightarrow> git_repo env = Inr True \<Longrightarrow>
   run env args =
     ([], Some (PyException (''Uncommitted changes found in local git repo. '' @
                             ''Commit all changes before running experiments '' @
                             ''to maintain reproducibility.'')))"
  by (simp add: run_def parse_args_and_configuration_def gate_def
        check_for_uncommitted_changes_def)

theorem declined_override_on_dirty_tree_aborts_witness:
  "confirm_allow_dirty_repo [''maybe'', ''No''] = Inr False \<and>
   run \<lparr>nodename = ''node'', git_repo = Inr True, stdin = [''maybe'', ''No''],
        yaml_file = Inr (PDict [(''experiment_name'', PStr ''exp'')]),
        project_root = ''/proj'', uuid1 = ''abc123'', wandb_id = ''w1''\<rparr>
       \<lparr>arg_yaml_config = ''config.yaml'', arg_test = False, arg_no_logging = False,
        arg_no_checkpointing = False, arg_allow_dirty_repo = True\<rparr>
   = ([], Some (PyException (''Uncommitted changes found in local git repo. '' @
                             ''Commit all changes before running experiments '' @
                             ''to maintain reproducibility.'')))"
proof -
  have n: "confirm_allow_dirty_repo [''maybe'', ''No''] = Inr False"
    by (simp add: confirm_allow_dirty_repo_def confirm_loop_step confirm_loop_done
          lower_def lower_char_def)
  show ?thesis
    using n declined_override_on_dirty_tree_aborts
      [where env = "\<lparr>nodename = ''node'', git_repo = Inr True, stdin = [''maybe'', ''No''],
          yaml_file = Inr (PDict [(''experiment_name'', PStr ''exp'')]),
          project_root = ''/proj'', uuid1 = ''abc123'', wandb_id = ''w1''\<rparr>"
        and args = "\<lparr>arg_yaml_config = ''config.yaml'', arg_test = False,
          arg_no_logging = False, arg_no_checkpointing = False,
          arg_allow_dirty_repo = True\<rparr>"]
    by simp
qed

text \<open>
  C10. The trainer is given a fixed number of epochs: 1 in test mode and 500 otherwise,
  so never more than 500. This holds of the trainer \<open>setup_trainer\<close> returns, and of
  every trainer a run constructs, with the test flag of the command line.
\<close>

theorem max_epochs_fixed:
  "(\<forall>tr. setup_trainer R u gpus test sl sc lg ci cd vi = Inr tr \<longrightarrow>
      tr_max_epochs tr = (if test then 1 else 500) \<and> tr_max_epochs tr \<le> 500) \<and>
   (\<forall>tr. TrainerCreated tr \<in> set (fst (run env args)) \<longrightarrow>
      tr_max_epochs tr = (if arg_test args then 1 else 500) \<and> tr_max_epochs tr \<le> 500)"
proof -
  have "tr_max_epochs tr = (if test then 1 else 500) \<and> tr_max_epochs tr \<le> 500"
    if "setup_trainer R u gpus test sl sc lg ci cd vi = Inr tr" for tr
    using setup_trainer_Inr [OF that] by simp
  moreover have
    "tr_max_epochs tr = (if arg_test args then 1 else 500) \<and> tr_max_epochs tr \<le> 500"
    if "TrainerCreated tr \<in> set (fst (run env args))" for tr
  proof -
    from run_trainer_setup [OF that] obtain logger gpus' no_logging ci' cd' vi' where
      "setup_trainer (project_root env) (uuid1 env) gpus' (arg_test args) (\<not> no_logging)
         (\<not> arg_no_checkpointing args) logger ci' cd' vi' = Inr tr"
      by blast
    from setup_trainer_Inr [OF this] show ?thesis by simp
  qed
  ultimately show ?thesis by blast
qed

theorem max_epochs_fixed_witness:
  "(\<exists>tr. setup_trainer ''/proj'' ''abc123'' (PInt 1) False False False None (PInt 10) PNone
            (PFloat (1 / 2)) = Inr tr \<and> tr_max_epochs tr = 500) \<and>
   (\<exists>tr. TrainerCreated tr \<in> set (fst (run
        \<lparr>nodename = ''node'', git_repo = Inr True, stdin = [],
         yaml_file = Inr (PDict
           [(''experiment_name'', PStr ''exp''), (''gpus'', PInt 1),
            (''batch_size'', PInt 32), (''checkpoint_interval'', PInt 10),
            (''save_checkpoint_dir'', PStr ''/ckpt''),
            (''validation_interval'', PFloat (1 / 2)),
            (''shared_parameters'', PDict [(''num_robot_points'', PInt 2048)]),
            (''training_model_parameters'', PNone),
            (''data_module_parameters'', PDict [(''data_dir'', PStr ''/data'')])]),
         project_root = ''/proj'', uuid1 = ''abc123'', wandb_id = ''w1''\<rparr>
        \<lparr>arg_yaml_config = ''config.yaml'', arg_test = True, arg_no_logging = False,
         arg_no_checkpointing = False, arg_allow_dirty_repo = False\<rparr>)) \<and>
      tr_max_epochs tr = 1)"
proof -
  let ?env = "\<lparr>nodename = ''node'', git_repo = Inr True, stdin = [],
         yaml_file = Inr (PDict
           [(''experiment_name'', PStr ''exp''), (''gpus'', PInt 1),
            (''batch_size'', PInt 32), (''checkpoint_interval'', PInt 10),
            (''save_checkpoint_dir'', PStr ''/ckpt''),
            (''validation_interval'', PFloat (1 / 2)),
            (''shared_parameters'', PDict [(''num_robot_points'', PInt 2048)]),
            (''training_model_parameters'', PNone),
            (''data_module_parameters'', PDict [(''data_dir'', PStr ''/data'')])]),
         project_root = ''/proj'', uuid1 = ''abc123'', wandb_id = ''w1''\<rparr>"
  let ?args = "\<lparr>arg_yaml_config = ''config.yaml'', arg_test = True, arg_no_logging = False,
         arg_no_checkpointing = False, arg_allow_dirty_repo = False\<rparr>"
  have "\<exists>tr1. setup_trainer ''/proj'' ''abc123'' (PInt 1) False False False None
      (PInt 10) PNone (PFloat (1 / 2)) = Inr tr1"
    by (rule setup_trainer_returns) simp_all
  then obtain tr1 where t1: "setup_trainer ''/proj'' ''abc123'' (PInt 1) False False False None
      (PInt 10) PNone (PFloat (1 / 2)) = Inr tr1" ..
  obtain tr2 where t2: "TrainerCreated tr2 \<in> set (fst (run ?env ?args))"
    by (auto simp: run_def parse_args_and_configuration_def gate_def dict_merge_def vars_def
          getitem_def setup_logger_def trainer_of_config_def setup_trainer_def
          experiment_id_of_def resolve_dirpath_def datamodule_kwargs_def model_kwargs_def
          py_or_def Let_def)
  have "tr_max_epochs tr1 = 500"
    using max_epochs_fixed [where test = False] t1 by fastforce
  moreover have "tr_max_epochs tr2 = 1"
    using max_epochs_fixed [where env = ?env and args = ?args] t2 by fastforce
  ultimately show ?thesis
    using t1 t2 by blast
qed

end
